theory Spec2Isabelle
  imports Main "HOL-Library.AList"
begin

section \<open>Data model of the generator (src/index.ts, lines 14-29)\<close>

text \<open>
  The tier, the CI provider and the package manager are string-literal unions in the
  source; each becomes a datatype with the source's literals as constructors.
\<close>

datatype template = minimal | api | full

datatype ci_provider = github | gitlab | none

datatype packageManager = npm | pnpm | yarn | bun

text \<open>The inline object type of \<open>ProjectConfig.features\<close>.\<close>

record Features =
  docker :: bool
  dockerCompose :: bool
  ci :: ci_provider
  openapi :: bool
  auth :: bool
  observability :: bool

text \<open>
  \<open>ProjectConfig\<close>. The TypeScript types of \<open>name\<close> and \<open>gitCommit\<close> are \<open>string\<close> and
  \<open>boolean\<close>, but both are copied from the prompt answers, where a skipped question leaves
  the key \<open>undefined\<close>; \<open>None\<close> is that \<open>undefined\<close>.
\<close>

record ProjectConfig =
  name :: "string option"
  template :: template
  features :: Features
  packageManager :: packageManager
  git :: bool
  gitCommit :: "bool option"
  install :: bool

text \<open>
  The object returned by \<open>prompts(questions)\<close>: one key per question that was asked.
  \<open>additionalFeatures\<close> is only asked after \<open>template = minimal\<close> and \<open>gitCommit\<close> only
  after \<open>git = true\<close>, so both may be \<open>undefined\<close>; so may \<open>name\<close>, which is only asked
  when no project name came from the command line.
\<close>

record answers =
  ans_name :: "string option"
  ans_template :: template
  additionalFeatures :: "string list option"
  ans_packageManager :: packageManager
  ans_git :: bool
  ans_gitCommit :: "bool option"

section \<open>Name validation (promptForConfig, lines 47-61)\<close>

text \<open>The character class \<open>[a-z0-9-_]\<close> of the regular expression.\<close>

definition identChar :: "char \<Rightarrow> bool" where
  "identChar c =
     (let n = (of_char c :: nat)
      in (97 \<le> n \<and> n \<le> 122) \<or> (48 \<le> n \<and> n \<le> 57) \<or> c = CHR ''-'' \<or> c = CHR ''_'')"

text \<open>\<open>/^[a-z0-9-_]+$/.test(value)\<close>: one or more characters, all of the class.\<close>

definition matchesNamePattern :: "string \<Rightarrow> bool" where
  "matchesNamePattern v = (v \<noteq> [] \<and> list_all identChar v)"

text \<open>
  The \<open>validate\<close> callback of the name question: \<open>Inr ()\<close> is the source's \<open>true\<close>,
  \<open>Inl msg\<close> the message the callback returns for a rejected value.
\<close>

definition validate :: "string \<Rightarrow> string + unit" where
  "validate v =
     (if v = [] then Inl ''Project name is required''
      else if \<not> matchesNamePattern v then
        Inl ''Project name can only contain lowercase letters, numbers, hyphens, and underscores''
      else Inr ())"

text \<open>JavaScript truthiness of an optional string: defined and not empty.\<close>

definition truthy :: "string option \<Rightarrow> bool" where
  "truthy s = (case s of None \<Rightarrow> False | Some v \<Rightarrow> v \<noteq> [])"

text \<open>
  \<open>if (!projectName) questions.push({name: 'name', validate: ...})\<close>: the name question,
  and with it the \<open>validate\<close> callback, is part of the question list only when no project
  name was passed in.
\<close>

definition nameQuestionAsked :: "string option \<Rightarrow> bool" where
  "nameQuestionAsked projectName = (\<not> truthy projectName)"

section \<open>Configuration resolution (promptForConfig, lines 122-163)\<close>

text \<open>
  The feature object is created with its zero values and then assigned to field by
  field, branch by branch, as in the source. \<open>answers.additionalFeatures\<close> is an array
  when present, and every array is truthy, the empty one too.
\<close>

definition parseFeatures :: "answers \<Rightarrow> Features" where
  "parseFeatures a =
     (let f0 = \<lparr>docker = False, dockerCompose = False, ci = none, openapi = False,
                auth = False, observability = False\<rparr>;
          f1 = (if ans_template a = api \<or> ans_template a = full
                then f0\<lparr>docker := True, dockerCompose := True, ci := github,
                        openapi := True, auth := True\<rparr>
                else f0);
          f2 = (if ans_template a = full then f1\<lparr>observability := True\<rparr> else f1)
      in (case additionalFeatures a of
            Some toks \<Rightarrow>
              if ans_template a = minimal
              then f2\<lparr>docker := ''docker'' \<in> set toks,
                      dockerCompose := ''dockerCompose'' \<in> set toks,
                      ci := (if ''ci-github'' \<in> set toks then github else none),
                      openapi := ''openapi'' \<in> set toks,
                      auth := ''auth'' \<in> set toks,
                      observability := ''observability'' \<in> set toks\<rparr>
              else f2
          | None \<Rightarrow> f2))"

text \<open>
  The returned object literal. \<open>projectName || answers.name\<close> takes the command-line
  name when it is truthy and the answer otherwise.
\<close>

definition promptForConfig :: "string option \<Rightarrow> answers \<Rightarrow> ProjectConfig" where
  "promptForConfig projectName a =
     \<lparr>name = (if truthy projectName then projectName else ans_name a),
      template = ans_template a,
      features = parseFeatures a,
      packageManager = ans_packageManager a,
      git = ans_git a,
      gitCommit = ans_gitCommit a,
      install = True\<rparr>"

section \<open>The world the generation steps act on\<close>

text \<open>
  A JSON value as the source builds it before \<open>JSON.stringify\<close>: strings, arrays,
  objects with their keys in insertion order, and \<open>undefined\<close>.
\<close>

datatype json = JStr string | JArr "json list" | JObj "(string \<times> json) list" | JUndefined

text \<open>
  The generated documents whose text no property below depends on. They are kept as
  a label with the configuration they are rendered from, not expanded to their text.
\<close>

datatype document =
    PackageJson | TsConfig | EslintConfig | PrettierRc | GitIgnore | EnvExample
  | PreCommitHook | CommitMsgHook | LintStagedRc | CommitlintConfig | Readme | Architecture

text \<open>
  What a file holds: a literal text, the text \<open>JSON.stringify(v, null, 2)\<close> of a JSON
  value \<open>v\<close>, or one of the documents above.
\<close>

datatype file_body = Text string | JsonText json | Rendered document ProjectConfig

text \<open>The calls of \<open>fs\<close> and \<open>child_process\<close> that can throw.\<close>

datatype io_op = Mkdir string | WriteFile string | CpSync string string | ExecSync string

datatype console_line =
    Banner | SpinnerStart string | SpinnerSucceed string | SpinnerFail string
  | ErrorLine string | ErrorObject | NextSteps ProjectConfig

text \<open>
  The state outside the program: the working directory, the directories and files on
  disk (absolute paths), the commands run so far with their working directory, the
  console, and \<open>throws\<close>, which says of each file-system or subprocess call whether it
  throws in this environment. The source decides none of these failures, so the
  properties below hold for every \<open>throws\<close>.
\<close>

record world =
  cwd :: string
  dirs :: "string list"
  files :: "(string \<times> file_body) list"
  execs :: "(string \<times> string) list"
  console :: "console_line list"
  throws :: "io_op \<Rightarrow> bool"

text \<open>
  An action of the program returns \<open>True\<close> with the new world when it completes and
  \<open>False\<close> with the world as it stood when a call threw.
\<close>

type_synonym action = "world \<Rightarrow> bool \<times> world"

fun seqs :: "action list \<Rightarrow> action" where
  "seqs [] w = (True, w)"
| "seqs (a # as) w = (case a w of (ok, w') \<Rightarrow> if ok then seqs as w' else (False, w'))"

text \<open>\<open>try { body } catch (error) { handler; return false }\<close>, with \<open>return true\<close> ending the body.\<close>

definition tryCatch :: "action \<Rightarrow> (world \<Rightarrow> world) \<Rightarrow> action" where
  "tryCatch body handler w = (case body w of (ok, w') \<Rightarrow> if ok then (True, w') else (False, handler w'))"

text \<open>\<open>try { body } catch (e) { }\<close>: the inner block around \<open>chmod\<close>.\<close>

definition ignoreErrors :: "action \<Rightarrow> action" where
  "ignoreErrors body w = (True, snd (body w))"

definition whenever :: "(world \<Rightarrow> bool) \<Rightarrow> action \<Rightarrow> action" where
  "whenever cond body w = (if cond w then body w else (True, w))"

definition say :: "console_line \<Rightarrow> world \<Rightarrow> world" where
  "say l w = w\<lparr>console := console w @ [l]\<rparr>"

definition says :: "console_line \<Rightarrow> action" where
  "says l w = (True, say l w)"

subsection \<open>Paths\<close>

text \<open>
  \<open>path.resolve(base, rel)\<close> for an absolute \<open>base\<close>: an absolute \<open>rel\<close> replaces the base,
  an empty one leaves it, any other is appended after a separator. Normalisation of
  \<open>.\<close> and \<open>..\<close> segments is not modelled.
\<close>

definition resolve :: "string \<Rightarrow> string \<Rightarrow> string" where
  "resolve base rel =
     (if rel = [] then base else if hd rel = CHR ''/'' then rel else base @ ''/'' @ rel)"

text \<open>A path is under a directory when it is the directory or continues it after a separator.\<close>

definition under :: "string \<Rightarrow> string \<Rightarrow> bool" where
  "under d q = (q = d \<or> take (length d + 1) q = d @ ''/'')"

text \<open>The directories above a path, outermost first.\<close>

definition ancestors :: "string \<Rightarrow> string list" where
  "ancestors p = map (\<lambda>i. take i p) (filter (\<lambda>i. p ! i = CHR ''/'') [1..<length p])"

definition rebase :: "string \<Rightarrow> string \<Rightarrow> string \<Rightarrow> string" where
  "rebase src dst q = dst @ drop (length src) q"

subsection \<open>File-system and subprocess calls\<close>

definition existsSync :: "string \<Rightarrow> world \<Rightarrow> bool" where
  "existsSync p w = (p \<in> set (dirs w) \<or> map_of (files w) p \<noteq> None)"

text \<open>\<open>mkdirSync(p, { recursive: true })\<close> creates the missing directories above \<open>p\<close> too.\<close>

definition mkdirSync :: "string \<Rightarrow> action" where
  "mkdirSync p w =
     (if throws w (Mkdir p) then (False, w)
      else (True, w\<lparr>dirs := List.union (dirs w) (ancestors p @ [p])\<rparr>))"

definition writeFileSync :: "string \<Rightarrow> file_body \<Rightarrow> action" where
  "writeFileSync p b w =
     (if throws w (WriteFile p) then (False, w)
      else (True, w\<lparr>files := AList.update p b (files w)\<rparr>))"

text \<open>
  \<open>cpSync(src, dst, { recursive: true })\<close>: every directory and file under \<open>src\<close> appears
  under \<open>dst\<close>. The copy is one call of the source and is taken as all or nothing.
\<close>

definition cpSync :: "string \<Rightarrow> string \<Rightarrow> action" where
  "cpSync src dst w =
     (if throws w (CpSync src dst) then (False, w)
      else (True, w\<lparr>dirs := List.union (dirs w) (map (rebase src dst) (filter (under src) (dirs w))),
                     files := fold (\<lambda>(q, b). AList.update (rebase src dst q) b)
                                (filter (\<lambda>(q, b). under src q) (files w)) (files w)\<rparr>))"

text \<open>
  The effect of a shell command on the disk. Only \<open>rm -rf path\<close> has one here: it
  removes the path and everything under it (the shell's word splitting of the path is
  not modelled). What \<open>chmod\<close>, the package manager and \<open>git\<close> do to the disk is outside
  this model; their runs are recorded in \<open>execs\<close>.
\<close>

definition shellEffect :: "string \<Rightarrow> world \<Rightarrow> world" where
  "shellEffect cmd w =
     (if take 7 cmd = ''rm -rf ''
      then w\<lparr>dirs := filter (\<lambda>q. \<not> under (drop 7 cmd) q) (dirs w),
             files := filter (\<lambda>(q, b). \<not> under (drop 7 cmd) q) (files w)\<rparr>
      else w)"

text \<open>\<open>execSync(cmd, { cwd: dir })\<close>; a nonzero exit status of the command throws.\<close>

definition execSync :: "string \<Rightarrow> string \<Rightarrow> action" where
  "execSync cmd dir w =
     (if throws w (ExecSync cmd) then (False, w)
      else (True, shellEffect cmd (w\<lparr>execs := execs w @ [(cmd, dir)]\<rparr>)))"

section \<open>The generation steps\<close>

subsection \<open>createProjectStructure (lines 165-187)\<close>

definition createProjectStructure :: "string \<Rightarrow> ProjectConfig \<Rightarrow> action" where
  "createProjectStructure projectPath config w =
     tryCatch
       (seqs [mkdirSync projectPath,
              mkdirSync (resolve projectPath ''src''),
              mkdirSync (resolve projectPath ''src/meta''),
              mkdirSync (resolve projectPath ''src/middleware''),
              mkdirSync (resolve projectPath ''src/routes''),
              mkdirSync (resolve projectPath ''src/handlers''),
              mkdirSync (resolve projectPath ''src/config''),
              mkdirSync (resolve projectPath ''tests/integration''),
              mkdirSync (resolve projectPath ''tests/unit''),
              says (SpinnerSucceed ''Created project structure'')])
       (\<lambda>w'. say ErrorObject (say (SpinnerFail ''Failed to create project structure'') w'))
       (say (SpinnerStart ''Creating project structure...'') w)"

subsection \<open>copyTemplateFiles (lines 189-230)\<close>

text \<open>\<open>TEMPLATES_DIR\<close> is fixed when the program is installed; it is a parameter here.\<close>

definition templateName :: "template \<Rightarrow> string" where
  "templateName t = (case t of minimal \<Rightarrow> ''minimal'' | api \<Rightarrow> ''api'' | full \<Rightarrow> ''full'')"

definition copyTree :: "string \<Rightarrow> string \<Rightarrow> action" where
  "copyTree from to =
     whenever (existsSync from)
       (seqs [whenever (existsSync to) (\<lambda>w. execSync (''rm -rf '' @ to) (cwd w) w),
              cpSync from to])"

definition copyTemplateFiles :: "string \<Rightarrow> string \<Rightarrow> ProjectConfig \<Rightarrow> action" where
  "copyTemplateFiles templatesDir projectPath config w =
     (let templatePath = resolve templatesDir (templateName (template config))
      in tryCatch
           (seqs [whenever (existsSync templatePath)
                    (seqs [copyTree (resolve templatePath ''src'') (resolve projectPath ''src''),
                           copyTree (resolve templatePath ''tests'') (resolve projectPath ''tests'')]),
                  says (SpinnerSucceed ''Copied template files'')])
           (\<lambda>w'. say ErrorObject (say (SpinnerFail ''Failed to copy template files'') w'))
           (say (SpinnerStart ''Copying template files...'') w))"

subsection \<open>Texts\<close>

text \<open>The characters that cannot stand inside a string literal.\<close>

definition dq :: string where
  "dq = [CHR 0x22]"

definition sq :: string where
  "sq = [CHR 0x27]"

definition bs :: string where
  "bs = [CHR 0x5C]"

text \<open>A template literal of the source, line by line: every line ends with a newline.\<close>

definition joinLines :: "string list \<Rightarrow> string" where
  "joinLines ls = concat (map (\<lambda>l. l @ [CHR 0x0A]) ls)"

text \<open>\<open>${config.name}\<close> and string concatenation print an undefined name as \<open>undefined\<close>.\<close>

definition nameText :: "ProjectConfig \<Rightarrow> string" where
  "nameText config = (case name config of None \<Rightarrow> ''undefined'' | Some n \<Rightarrow> n)"

definition pmText :: "packageManager \<Rightarrow> string" where
  "pmText pm = (case pm of npm \<Rightarrow> ''npm'' | pnpm \<Rightarrow> ''pnpm'' | yarn \<Rightarrow> ''yarn'' | bun \<Rightarrow> ''bun'')"

subsection \<open>generatePackageJson (lines 232-323)\<close>

definition generatePackageJson :: "string \<Rightarrow> ProjectConfig \<Rightarrow> action" where
  "generatePackageJson projectPath config w =
     tryCatch
       (seqs [writeFileSync (resolve projectPath ''package.json'') (Rendered PackageJson config),
              says (SpinnerSucceed ''Generated package.json'')])
       (\<lambda>w'. say ErrorObject (say (SpinnerFail ''Failed to generate package.json'') w'))
       (say (SpinnerStart ''Generating package.json...'') w)"

subsection \<open>generateConfigFiles (lines 325-501)\<close>

definition generateConfigFiles :: "string \<Rightarrow> ProjectConfig \<Rightarrow> action" where
  "generateConfigFiles projectPath config w =
     (let huskyPath = resolve projectPath ''.husky''
      in tryCatch
           (seqs [writeFileSync (resolve projectPath ''tsconfig.json'') (Rendered TsConfig config),
                  writeFileSync (resolve projectPath ''eslint.config.js'') (Rendered EslintConfig config),
                  writeFileSync (resolve projectPath ''.prettierrc'') (Rendered PrettierRc config),
                  writeFileSync (resolve projectPath ''.gitignore'') (Rendered GitIgnore config),
                  writeFileSync (resolve projectPath ''.env.example'') (Rendered EnvExample config),
                  mkdirSync huskyPath,
                  writeFileSync (resolve huskyPath ''pre-commit'') (Rendered PreCommitHook config),
                  writeFileSync (resolve huskyPath ''commit-msg'') (Rendered CommitMsgHook config),
                  ignoreErrors
                    (seqs [\<lambda>w'. execSync (''chmod +x '' @ resolve huskyPath ''pre-commit'') (cwd w') w',
                           \<lambda>w'. execSync (''chmod +x '' @ resolve huskyPath ''commit-msg'') (cwd w') w']),
                  writeFileSync (resolve projectPath ''.lintstagedrc'') (Rendered LintStagedRc config),
                  writeFileSync (resolve projectPath ''commitlint.config.js'') (Rendered CommitlintConfig config),
                  says (SpinnerSucceed ''Generated configuration files'')])
           (\<lambda>w'. say ErrorObject (say (SpinnerFail ''Failed to generate configuration files'') w'))
           (say (SpinnerStart ''Generating configuration files...'') w))"

subsection \<open>generateDockerFiles (lines 503-620)\<close>

definition dockerfileLines :: "string list" where
  "dockerfileLines =
     [''# Build stage'',
      ''FROM node:20-alpine AS builder'',
      '''',
      ''WORKDIR /app'',
      '''',
      ''# Copy package files'',
      ''COPY package*.json ./'',
      '''',
      ''# Install dependencies'',
      ''RUN npm ci'',
      '''',
      ''# Copy source'',
      ''COPY . .'',
      '''',
      ''# Build'',
      ''RUN npm run build'',
      '''',
      ''# Runtime stage'',
      ''FROM node:20-alpine'',
      '''',
      ''WORKDIR /app'',
      '''',
      ''# Copy package files'',
      ''COPY package*.json ./'',
      '''',
      ''# Install production dependencies only'',
      ''RUN npm ci --production'',
      '''',
      ''# Copy built files'',
      ''COPY --from=builder /app/dist ./dist'',
      '''',
      ''# Create non-root user'',
      ''RUN addgroup -g 1001 -S nodejs && '' @ bs,
      ''    adduser -S nodejs -u 1001'',
      '''',
      ''USER nodejs'',
      '''',
      ''EXPOSE 3000'',
      '''',
      ''HEALTHCHECK --interval=30s --timeout=3s --start-period=5s --retries=3 '' @ bs,
      ''  CMD node -e '' @ dq @ ''require('http').get('http://localhost:3000/health', (r) => {process.exit(r.statusCode === 200 ? 0 : 1)})'' @ dq,
      '''',
      ''CMD ['' @ dq @ ''node'' @ dq @ '', '' @ dq @ ''dist/index.js'' @ dq @ '']'']"

definition dockerignoreLines :: "string list" where
  "dockerignoreLines =
     [''node_modules'',
      ''dist'',
      ''*.log'',
      ''.env'',
      ''.git'',
      ''.github'',
      ''.vscode'',
      ''.idea'',
      ''*.md'',
      ''tests'',
      ''coverage'']"

text \<open>
  The \<open>composeServices\<close> object: the \<open>app\<close> service, and with \<open>auth\<close> one more
  environment entry, the \<open>depends_on\<close> edge and the \<open>redis\<close> service.
\<close>

definition composeServices :: "ProjectConfig \<Rightarrow> json" where
  "composeServices config =
     JObj ([(''app'',
             JObj [(''build'', JStr ''.''),
                   (''ports'', JArr [JStr ''3000:3000'']),
                   (''environment'',
                    JArr ([JStr ''NODE_ENV=production'', JStr ''LOG_LEVEL=info'']
                          @ (if auth (features config) then [JStr ''REDIS_URL=redis://redis:6379''] else []))),
                   (''depends_on'', JArr (if auth (features config) then [JStr ''redis''] else [])),
                   (''restart'', JStr ''unless-stopped'')])]
           @ (if auth (features config)
              then [(''redis'',
                     JObj [(''image'', JStr ''redis:7-alpine''),
                           (''ports'', JArr [JStr ''6379:6379'']),
                           (''volumes'', JArr [JStr ''redis-data:/data'']),
                           (''restart'', JStr ''unless-stopped'')])]
              else []))"

text \<open>The object \<open>dockerCompose\<close> of the source (the name is taken by the feature flag here).\<close>

definition dockerComposeDoc :: "ProjectConfig \<Rightarrow> json" where
  "dockerComposeDoc config =
     JObj [(''version'', JStr ''3.8''),
           (''services'', composeServices config),
           (''volumes'', if auth (features config) then JObj [(''redis-data'', JObj [])] else JUndefined)]"

definition generateDockerFiles :: "string \<Rightarrow> ProjectConfig \<Rightarrow> action" where
  "generateDockerFiles projectPath config w =
     (if \<not> docker (features config) \<and> \<not> dockerCompose (features config) then (True, w)
      else tryCatch
             (seqs [whenever (\<lambda>w'. docker (features config))
                      (seqs [writeFileSync (resolve projectPath ''Dockerfile'') (Text (joinLines dockerfileLines)),
                             writeFileSync (resolve projectPath ''.dockerignore'') (Text (joinLines dockerignoreLines))]),
                    whenever (\<lambda>w'. dockerCompose (features config))
                      (writeFileSync (resolve projectPath ''docker-compose.yml'') (JsonText (dockerComposeDoc config))),
                    says (SpinnerSucceed ''Generated Docker files'')])
             (\<lambda>w'. say ErrorObject (say (SpinnerFail ''Failed to generate Docker files'') w'))
             (say (SpinnerStart ''Generating Docker files...'') w))"

subsection \<open>generateCIFiles (lines 622-703)\<close>

definition ciWorkflowLines :: "string list" where
  "ciWorkflowLines =
     [''name: CI'',
      '''',
      ''on:'',
      ''  push:'',
      ''    branches: [ main, develop ]'',
      ''  pull_request:'',
      ''    branches: [ main, develop ]'',
      '''',
      ''jobs:'',
      ''  test:'',
      ''    runs-on: ubuntu-latest'',
      ''    '',
      ''    steps:'',
      ''    - uses: actions/checkout@v4'',
      ''    '',
      ''    - name: Setup Node.js'',
      ''      uses: actions/setup-node@v4'',
      ''      with:'',
      ''        node-version: '20'' @ sq,
      ''        cache: 'npm'' @ sq,
      ''    '',
      ''    - name: Install dependencies'',
      ''      run: npm ci'',
      ''    '',
      ''    - name: Run linter'',
      ''      run: npm run lint'',
      ''    '',
      ''    - name: Type check'',
      ''      run: npm run type-check'',
      ''    '',
      ''    - name: Run tests'',
      ''      run: npm test'',
      ''    '',
      ''    - name: Check dependencies'',
      ''      run: npm run depcheck'',
      ''    '',
      ''    - name: Build'',
      ''      run: npm run build'']"

definition dockerJobLines :: "ProjectConfig \<Rightarrow> string list" where
  "dockerJobLines config =
     ['''',
      ''  docker:'',
      ''    runs-on: ubuntu-latest'',
      ''    needs: test'',
      ''    if: github.ref == 'refs/heads/main'' @ sq,
      ''    '',
      ''    steps:'',
      ''    - uses: actions/checkout@v4'',
      ''    '',
      ''    - name: Build Docker image'',
      ''      run: docker build -t '' @ nameText config @ '':latest .'']"

definition generateCIFiles :: "string \<Rightarrow> ProjectConfig \<Rightarrow> action" where
  "generateCIFiles projectPath config w =
     (if ci (features config) = none then (True, w)
      else tryCatch
             (seqs [whenever (\<lambda>w'. ci (features config) = github)
                      (let githubPath = resolve projectPath ''.github/workflows'';
                           dockerJob = (if docker (features config) then joinLines (dockerJobLines config) else [])
                       in seqs [mkdirSync githubPath,
                                writeFileSync (resolve githubPath ''ci.yml'')
                                  (Text (joinLines ciWorkflowLines @ dockerJob))]),
                    says (SpinnerSucceed ''Generated CI/CD files'')])
             (\<lambda>w'. say ErrorObject (say (SpinnerFail ''Failed to generate CI/CD files'') w'))
             (say (SpinnerStart ''Generating CI/CD files...'') w))"

subsection \<open>generateREADME (lines 705-943)\<close>

definition generateREADME :: "string \<Rightarrow> ProjectConfig \<Rightarrow> action" where
  "generateREADME projectPath config w =
     tryCatch
       (seqs [writeFileSync (resolve projectPath ''README.md'') (Rendered Readme config),
              writeFileSync (resolve projectPath ''ARCHITECTURE.md'') (Rendered Architecture config),
              says (SpinnerSucceed ''Generated documentation'')])
       (\<lambda>w'. say ErrorObject (say (SpinnerFail ''Failed to generate documentation'') w'))
       (say (SpinnerStart ''Generating documentation...'') w)"

subsection \<open>installDependencies (lines 945-973)\<close>

definition installCommand :: "packageManager \<Rightarrow> string" where
  "installCommand pm =
     (case pm of npm \<Rightarrow> ''npm install'' | pnpm \<Rightarrow> ''pnpm install'' | yarn \<Rightarrow> ''yarn'' | bun \<Rightarrow> ''bun install'')"

text \<open>The two lines the \<open>catch\<close> block prints (the colour codes of \<open>chalk\<close> are left out).\<close>

definition installRemediation :: "ProjectConfig \<Rightarrow> console_line list" where
  "installRemediation config =
     [ErrorLine ([CHR 0x0A] @ ''You can install dependencies manually by running:''),
      ErrorLine (''  cd '' @ nameText config @ '' && '' @ pmText (packageManager config) @ '' install'' @ [CHR 0x0A])]"

definition installDependencies :: "string \<Rightarrow> ProjectConfig \<Rightarrow> action" where
  "installDependencies projectPath config w =
     (if \<not> install config then (True, w)
      else tryCatch
             (seqs [execSync (installCommand (packageManager config)) projectPath,
                    says (SpinnerSucceed ''Installed dependencies'')])
             (\<lambda>w'. fold say (installRemediation config) (say (SpinnerFail ''Failed to install dependencies'') w'))
             (say (SpinnerStart ''Installing dependencies...'') w))"

subsection \<open>initializeGit (lines 975-1001)\<close>

definition initializeGit :: "string \<Rightarrow> ProjectConfig \<Rightarrow> action" where
  "initializeGit projectPath config w =
     (if \<not> git config then (True, w)
      else tryCatch
             (seqs [execSync ''git init'' projectPath,
                    execSync ''git add .'' projectPath,
                    if gitCommit config = Some True
                    then seqs [execSync (''git commit -m '' @ dq @ ''feat: initial commit from create-filament'' @ dq) projectPath,
                               says (SpinnerSucceed ''Initialized git repository with initial commit'')]
                    else says (SpinnerSucceed ''Initialized git repository'')])
             (\<lambda>w'. say (SpinnerFail ''Failed to initialize git repository'') w')
             (say (SpinnerStart ''Initializing git repository...'') w))"

section \<open>The pipeline (main, lines 1033-1081)\<close>

text \<open>One label per entry of the \<open>steps\<close> array, to record which entries were called.\<close>

datatype step =
    CreateProjectStructure | CopyTemplateFiles | GeneratePackageJson | GenerateConfigFiles
  | GenerateDockerFiles | GenerateCIFiles | GenerateREADME | InstallDependencies | InitializeGit

definition steps :: "string \<Rightarrow> string \<Rightarrow> ProjectConfig \<Rightarrow> (step \<times> action) list" where
  "steps templatesDir projectPath config =
     [(CreateProjectStructure, createProjectStructure projectPath config),
      (CopyTemplateFiles, copyTemplateFiles templatesDir projectPath config),
      (GeneratePackageJson, generatePackageJson projectPath config),
      (GenerateConfigFiles, generateConfigFiles projectPath config),
      (GenerateDockerFiles, generateDockerFiles projectPath config),
      (GenerateCIFiles, generateCIFiles projectPath config),
      (GenerateREADME, generateREADME projectPath config),
      (InstallDependencies, installDependencies projectPath config),
      (InitializeGit, initializeGit projectPath config)]"

text \<open>The mark that opens the error lines of \<open>main\<close>, as its UTF-8 bytes.\<close>

definition cross :: string where
  "cross = [CHR 0xE2, CHR 0x9C, CHR 0x96]"

definition setupFailed :: console_line where
  "setupFailed = ErrorLine ([CHR 0x0A] @ cross @ '' Setup failed'' @ [CHR 0x0A])"

text \<open>
  \<open>for (const step of steps) { if (!step()) { console.error(...); process.exit(1); } }\<close>.
  The result says whether the loop ran to its end, lists the entries that were called,
  in the order of the calls, and gives the world the loop left.
\<close>

fun runSteps :: "(step \<times> action) list \<Rightarrow> world \<Rightarrow> bool \<times> step list \<times> world" where
  "runSteps [] w = (True, [], w)"
| "runSteps ((s, act) # rest) w =
     (case act w of
        (ok, w') \<Rightarrow>
          if ok then (case runSteps rest w' of (done, called, w'') \<Rightarrow> (done, s # called, w''))
          else (False, [s], say setupFailed w'))"

record outcome =
  exitCode :: nat
  invoked :: "step list"
  finalWorld :: world

definition alreadyExists :: "string \<Rightarrow> console_line" where
  "alreadyExists n =
     ErrorLine ([CHR 0x0A] @ cross @ '' Directory '' @ dq @ n @ dq @ '' already exists'' @ [CHR 0x0A])"

text \<open>
  \<open>main\<close> from the call of \<open>promptForConfig\<close> on (lines 1045-1074), given the answers
  the prompts return. \<open>resolve(process.cwd(), config.name)\<close> throws on an undefined
  name; the \<open>catch\<close> of \<open>main()\<close> then prints the error and exits with 1. A run that
  reaches the end of \<open>main\<close> exits with 0.
\<close>

definition mainFromPrompt :: "string \<Rightarrow> string option \<Rightarrow> answers \<Rightarrow> world \<Rightarrow> outcome" where
  "mainFromPrompt templatesDir projectName a w =
     (let config = promptForConfig projectName a
      in case name config of
           None \<Rightarrow>
             \<lparr>exitCode = 1, invoked = [],
              finalWorld = say ErrorObject
                (say (ErrorLine ([CHR 0x0A] @ cross @ '' An error occurred:'' @ [CHR 0x0A])) w)\<rparr>
         | Some n \<Rightarrow>
             (let projectPath = resolve (cwd w) n
              in if existsSync projectPath w
                 then \<lparr>exitCode = 1, invoked = [], finalWorld = say (alreadyExists n) w\<rparr>
                 else (case runSteps (steps templatesDir projectPath config) w of
                         (done, called, w') \<Rightarrow>
                           if done
                           then \<lparr>exitCode = 0, invoked = called, finalWorld = say (NextSteps config) w'\<rparr>
                           else \<lparr>exitCode = 1, invoked = called, finalWorld = w'\<rparr>)))"

text \<open>
  \<open>main\<close>, given the command-line arguments after \<open>process.argv.slice(2)\<close>:
  \<open>projectName = args[0]\<close>, and \<open>projectName && existsSync(projectName)\<close> reads a
  relative name from the working directory.
\<close>

definition main :: "string \<Rightarrow> string list \<Rightarrow> answers \<Rightarrow> world \<Rightarrow> outcome" where
  "main templatesDir args a w =
     (let w1 = say Banner w;
          projectName = (case args of [] \<Rightarrow> None | x # xs \<Rightarrow> Some x)
      in case projectName of
           None \<Rightarrow> mainFromPrompt templatesDir projectName a w1
         | Some n \<Rightarrow>
             if n \<noteq> [] \<and> existsSync (resolve (cwd w1) n) w1
             then \<lparr>exitCode = 1, invoked = [], finalWorld = say (alreadyExists n) w1\<rparr>
             else mainFromPrompt templatesDir projectName a w1)"

section \<open>The feature object as an object in a store\<close>

text \<open>
  \<open>let features = {...}\<close> creates an object, and the assignments \<open>features.docker = ...\<close>
  change it in place, one after the other; the returned configuration holds a reference
  to it. Here the objects live in a store, at addresses handed out in order.
\<close>

record store =
  objects :: "nat \<Rightarrow> Features option"
  fresh :: nat

definition alloc :: "Features \<Rightarrow> store \<Rightarrow> nat \<times> store" where
  "alloc f s = (fresh s, s\<lparr>objects := (objects s)(fresh s \<mapsto> f), fresh := Suc (fresh s)\<rparr>)"

definition assign :: "nat \<Rightarrow> (Features \<Rightarrow> Features) \<Rightarrow> store \<Rightarrow> store" where
  "assign r upd s =
     (case objects s r of None \<Rightarrow> s | Some f \<Rightarrow> s\<lparr>objects := (objects s)(r \<mapsto> upd f)\<rparr>)"

definition parseFeaturesInStore :: "answers \<Rightarrow> store \<Rightarrow> nat \<times> store" where
  "parseFeaturesInStore a s =
     (case alloc \<lparr>docker = False, dockerCompose = False, ci = none, openapi = False,
                  auth = False, observability = False\<rparr> s of
        (r, s0) \<Rightarrow>
          (let s1 = (if ans_template a = api \<or> ans_template a = full
                     then fold (assign r)
                            [\<lambda>f. f\<lparr>docker := True\<rparr>,
                             \<lambda>f. f\<lparr>dockerCompose := True\<rparr>,
                             \<lambda>f. f\<lparr>ci := github\<rparr>,
                             \<lambda>f. f\<lparr>openapi := True\<rparr>,
                             \<lambda>f. f\<lparr>auth := True\<rparr>] s0
                     else s0);
               s2 = (if ans_template a = full then assign r (\<lambda>f. f\<lparr>observability := True\<rparr>) s1 else s1);
               s3 = (case additionalFeatures a of
                       Some toks \<Rightarrow>
                         if ans_template a = minimal
                         then fold (assign r)
                                [\<lambda>f. f\<lparr>docker := ''docker'' \<in> set toks\<rparr>,
                                 \<lambda>f. f\<lparr>dockerCompose := ''dockerCompose'' \<in> set toks\<rparr>,
                                 \<lambda>f. f\<lparr>ci := (if ''ci-github'' \<in> set toks then github else none)\<rparr>,
                                 \<lambda>f. f\<lparr>openapi := ''openapi'' \<in> set toks\<rparr>,
                                 \<lambda>f. f\<lparr>auth := ''auth'' \<in> set toks\<rparr>,
                                 \<lambda>f. f\<lparr>observability := ''observability'' \<in> set toks\<rparr>] s2
                         else s2
                     | None \<Rightarrow> s2)
           in (r, s3)))"

text \<open>The returned object literal, with the feature object by reference.\<close>

record ProjectConfigRef =
  ref_name :: "string option"
  ref_template :: template
  ref_features :: nat
  ref_packageManager :: packageManager
  ref_git :: bool
  ref_gitCommit :: "bool option"
  ref_install :: bool

definition promptForConfigInStore :: "string option \<Rightarrow> answers \<Rightarrow> store \<Rightarrow> ProjectConfigRef \<times> store" where
  "promptForConfigInStore projectName a s =
     (case parseFeaturesInStore a s of
        (r, s') \<Rightarrow>
          (\<lparr>ref_name = (if truthy projectName then projectName else ans_name a),
            ref_template = ans_template a,
            ref_features = r,
            ref_packageManager = ans_packageManager a,
            ref_git = ans_git a,
            ref_gitCommit = ans_gitCommit a,
            ref_install = True\<rparr>, s'))"

text \<open>The value a configuration has in a store: its fields, with the feature object read out.\<close>

definition deepValue :: "store \<Rightarrow> ProjectConfigRef \<Rightarrow> ProjectConfig option" where
  "deepValue s c =
     (case objects s (ref_features c) of
        None \<Rightarrow> None
      | Some f \<Rightarrow>
          Some \<lparr>name = ref_name c, template = ref_template c, features = f,
                packageManager = ref_packageManager c, git = ref_git c,
                gitCommit = ref_gitCommit c, install = ref_install c\<rparr>)"

section \<open>Reading the generated files\<close>

text \<open>The lines of a text, split at the newlines.\<close>

fun splitLines :: "string \<Rightarrow> string list" where
  "splitLines [] = [[]]"
| "splitLines (c # cs) =
     (if c = CHR 0x0A then [] # splitLines cs
      else (case splitLines cs of [] \<Rightarrow> [[c]] | l # ls \<Rightarrow> (c # l) # ls))"

text \<open>
  The user a container built from a Dockerfile runs as: the argument of its last
  \<open>USER\<close> instruction, and \<open>root\<close> when it has none.
\<close>

definition dockerUser :: "string \<Rightarrow> string" where
  "dockerUser df =
     (case filter (\<lambda>l. take 5 l = ''USER '') (splitLines df) of
        [] \<Rightarrow> ''root''
      | u # us \<Rightarrow> drop 5 (last (u # us)))"

definition hasHealthcheck :: "string \<Rightarrow> bool" where
  "hasHealthcheck df = list_ex (\<lambda>l. take 12 l = ''HEALTHCHECK '') (splitLines df)"

text \<open>A member of a JSON object; \<open>undefined\<close> when the key is missing or the value is no object.\<close>

definition member :: "string \<Rightarrow> json \<Rightarrow> json" where
  "member k j =
     (case j of
        JObj kvs \<Rightarrow> (case map_of kvs k of None \<Rightarrow> JUndefined | Some v \<Rightarrow> v)
      | _ \<Rightarrow> JUndefined)"

text \<open>The service graph of a compose definition: its services, and the edges of one.\<close>

definition serviceNames :: "json \<Rightarrow> string list" where
  "serviceNames doc = (case member ''services'' doc of JObj kvs \<Rightarrow> map fst kvs | _ \<Rightarrow> [])"

definition dependsOn :: "string \<Rightarrow> json \<Rightarrow> json list" where
  "dependsOn svc doc =
     (case member ''depends_on'' (member svc (member ''services'' doc)) of
        JArr xs \<Rightarrow> xs
      | _ \<Rightarrow> [])"

section \<open>Following a run of the pipeline\<close>

text \<open>The world after the first \<open>n\<close> steps of a list have been called one after the other.\<close>

fun worldAfter :: "(step \<times> action) list \<Rightarrow> world \<Rightarrow> nat \<Rightarrow> world" where
  "worldAfter ss w 0 = w"
| "worldAfter [] w (Suc n) = w"
| "worldAfter ((s, act) # rest) w (Suc n) = worldAfter rest (snd (act w)) n"

text \<open>What step \<open>k\<close> of a list reports when it is called after the steps before it.\<close>

definition reports :: "(step \<times> action) list \<Rightarrow> world \<Rightarrow> nat \<Rightarrow> bool" where
  "reports ss w k = fst (snd (ss ! k) (worldAfter ss w k))"

definition stepOrder :: "step list" where
  "stepOrder =
     [CreateProjectStructure, CopyTemplateFiles, GeneratePackageJson, GenerateConfigFiles,
      GenerateDockerFiles, GenerateCIFiles, GenerateREADME, InstallDependencies, InitializeGit]"

section \<open>Example inputs\<close>

text \<open>
  The answers of a run that keeps the preselected features of the minimal tier, and a
  disk with the working directory and the minimal template on it.
\<close>

definition exampleAnswers :: answers where
  "exampleAnswers =
     \<lparr>ans_name = Some ''my-api'', ans_template = minimal,
      additionalFeatures = Some [''docker'', ''ci-github'', ''openapi''],
      ans_packageManager = npm, ans_git = True, ans_gitCommit = Some True\<rparr>"

definition exampleWorld :: "(io_op \<Rightarrow> bool) \<Rightarrow> world" where
  "exampleWorld t =
     \<lparr>cwd = ''/work'',
      dirs = [''/work'', ''/tpl'', ''/tpl/minimal'', ''/tpl/minimal/src''],
      files = [(''/tpl/minimal/src/index.ts'', Text ''// entry'')],
      execs = [], console = [], throws = t\<rparr>"

section \<open>Properties of the resolver\<close>

text \<open>
  C1. For the tiers \<open>api\<close> and \<open>full\<close> the resolved features are the fixed defaults of
  the tier: everything on, \<open>ci = github\<close>, and \<open>observability\<close> on exactly for \<open>full\<close>.
  Whatever stands in \<open>additionalFeatures\<close> makes no difference to them.
\<close>

theorem tier_defaults_fixed:
  assumes "ans_template a = api \<or> ans_template a = full"
  shows "features (promptForConfig pn a) =
           \<lparr>docker = True, dockerCompose = True, ci = github, openapi = True, auth = True,
            observability = (ans_template a = full)\<rparr>
       \<and> features (promptForConfig pn (a\<lparr>additionalFeatures := sel\<rparr>)) = features (promptForConfig pn a)"
  using assms
  by (auto simp: promptForConfig_def parseFeatures_def Let_def split: option.splits)

theorem tier_defaults_fixed_witness:
  "features (promptForConfig None
      \<lparr>ans_name = Some ''my-api'', ans_template = api, additionalFeatures = Some [],
       ans_packageManager = npm, ans_git = True, ans_gitCommit = Some True\<rparr>) =
     \<lparr>docker = True, dockerCompose = True, ci = github, openapi = True, auth = True,
      observability = False\<rparr>
   \<and> features (promptForConfig None
      \<lparr>ans_name = Some ''my-api'', ans_template = api, additionalFeatures = Some [''observability''],
       ans_packageManager = npm, ans_git = True, ans_gitCommit = Some True\<rparr>) =
     features (promptForConfig None
      \<lparr>ans_name = Some ''my-api'', ans_template = api, additionalFeatures = Some [],
       ans_packageManager = npm, ans_git = True, ans_gitCommit = Some True\<rparr>)"
  using tier_defaults_fixed [of "\<lparr>ans_name = Some ''my-api'', ans_template = api,
      additionalFeatures = Some [], ans_packageManager = npm, ans_git = True,
      ans_gitCommit = Some True\<rparr>" None "Some [''observability'']"]
  by simp

text \<open>
  C2. For the tier \<open>minimal\<close> with a list of selected tokens, every resolved flag is the
  membership test of its token in the list, and nothing of the zero values remains.
\<close>

theorem minimal_features_are_membership:
  assumes "ans_template a = minimal" and "additionalFeatures a = Some toks"
  shows "features (promptForConfig pn a) =
           \<lparr>docker = ''docker'' \<in> set toks,
            dockerCompose = ''dockerCompose'' \<in> set toks,
            ci = (if ''ci-github'' \<in> set toks then github else none),
            openapi = ''openapi'' \<in> set toks,
            auth = ''auth'' \<in> set toks,
            observability = ''observability'' \<in> set toks\<rparr>"
  using assms by (simp add: promptForConfig_def parseFeatures_def Let_def)

theorem minimal_features_are_membership_witness:
  "features (promptForConfig None
      \<lparr>ans_name = Some ''my-api'', ans_template = minimal, additionalFeatures = Some [''docker'', ''auth''],
       ans_packageManager = npm, ans_git = True, ans_gitCommit = Some True\<rparr>) =
     \<lparr>docker = True, dockerCompose = False, ci = none, openapi = False, auth = True,
      observability = False\<rparr>
   \<and> features (promptForConfig None
      \<lparr>ans_name = Some ''my-api'', ans_template = minimal, additionalFeatures = Some [],
       ans_packageManager = npm, ans_git = True, ans_gitCommit = Some True\<rparr>) =
     \<lparr>docker = False, dockerCompose = False, ci = none, openapi = False, auth = False,
      observability = False\<rparr>"
  using minimal_features_are_membership [of "\<lparr>ans_name = Some ''my-api'', ans_template = minimal,
      additionalFeatures = Some [''docker'', ''auth''], ans_packageManager = npm, ans_git = True,
      ans_gitCommit = Some True\<rparr>" "[''docker'', ''auth'']" None]
    minimal_features_are_membership [of "\<lparr>ans_name = Some ''my-api'', ans_template = minimal,
      additionalFeatures = Some [], ans_packageManager = npm, ans_git = True,
      ans_gitCommit = Some True\<rparr>" "[]" None]
  by simp




subsection \<open>The resolver on the store\<close>

lemma fresh_assign: "fresh (assign r u s) = fresh s"
  by (simp add: assign_def split: option.splits)

lemma objects_assign:
  "objects (assign r u s) r' = (if r' = r then map_option u (objects s r) else objects s r')"
  by (simp add: assign_def split: option.splits)

lemma parseFeaturesInStore_address: "fst (parseFeaturesInStore a s) = fresh s"
  by (simp add: parseFeaturesInStore_def alloc_def Let_def)

lemma parseFeaturesInStore_fresh: "fresh (snd (parseFeaturesInStore a s)) = Suc (fresh s)"
  by (simp add: parseFeaturesInStore_def alloc_def Let_def fresh_assign split: option.splits)

lemma parseFeaturesInStore_others:
  "r \<noteq> fresh s \<Longrightarrow> objects (snd (parseFeaturesInStore a s)) r = objects s r"
  by (simp add: parseFeaturesInStore_def alloc_def Let_def objects_assign split: option.splits)

text \<open>The object the in-place assignments leave is the feature record of \<open>parseFeatures\<close>.\<close>

lemma parseFeaturesInStore_object:
  "objects (snd (parseFeaturesInStore a s)) (fresh s) = Some (parseFeatures a)"
  by (cases "ans_template a")
     (simp_all add: parseFeaturesInStore_def parseFeatures_def alloc_def Let_def objects_assign
        split: option.splits)

lemma promptForConfigInStore_address:
  "ref_features (fst (promptForConfigInStore pn a s)) = fresh s"
  using parseFeaturesInStore_address [of a s]
  by (simp add: promptForConfigInStore_def case_prod_beta)

lemma promptForConfigInStore_store:
  "snd (promptForConfigInStore pn a s) = snd (parseFeaturesInStore a s)"
  by (simp add: promptForConfigInStore_def case_prod_beta)

lemma promptForConfigInStore_fresh:
  "fresh (snd (promptForConfigInStore pn a s)) = Suc (fresh s)"
  by (simp add: promptForConfigInStore_store parseFeaturesInStore_fresh)

lemma promptForConfigInStore_others:
  "r \<noteq> fresh s \<Longrightarrow> objects (snd (promptForConfigInStore pn a s)) r = objects s r"
  by (simp add: promptForConfigInStore_store parseFeaturesInStore_others)

lemma promptForConfigInStore_value:
  "deepValue (snd (promptForConfigInStore pn a s)) (fst (promptForConfigInStore pn a s)) =
     Some (promptForConfig pn a)"
  using parseFeaturesInStore_address [of a s] parseFeaturesInStore_object [of a s]
  by (simp add: promptForConfigInStore_def deepValue_def promptForConfig_def case_prod_beta)

lemma deepValue_same_object:
  "objects s1 (ref_features c) = objects s2 (ref_features c) \<Longrightarrow> deepValue s1 c = deepValue s2 c"
  by (simp add: deepValue_def)

text \<open>A second resolution leaves the object of the first one as it was.\<close>

lemma first_result_kept:
  "deepValue (snd (promptForConfigInStore pn a (snd (promptForConfigInStore pn a s))))
     (fst (promptForConfigInStore pn a s)) = Some (promptForConfig pn a)"
proof -
  let ?first = "promptForConfigInStore pn a s"
  let ?second = "promptForConfigInStore pn a (snd ?first)"
  have "fresh s \<noteq> fresh (snd ?first)"
    by (simp add: promptForConfigInStore_fresh)
  then have "objects (snd ?second) (fresh s) = objects (snd ?first) (fresh s)"
    by (rule promptForConfigInStore_others)
  then have "objects (snd ?second) (ref_features (fst ?first)) =
             objects (snd ?first) (ref_features (fst ?first))"
    by (simp add: promptForConfigInStore_address)
  then have "deepValue (snd ?second) (fst ?first) = deepValue (snd ?first) (fst ?first)"
    by (rule deepValue_same_object)
  then show ?thesis
    by (simp add: promptForConfigInStore_value)
qed

text \<open>
  C9. Resolution is a function of the raw answers (and the command-line name) alone.
  Run on any two stores, it yields configurations with the same deep value, the one the
  pure reading \<open>promptForConfig\<close> gives. Run twice in a row, it yields two configurations
  with feature objects of their own that are deep-equal, and the second run leaves the
  first result untouched.
\<close>

theorem resolution_deterministic:
  "deepValue (snd (promptForConfigInStore pn a s)) (fst (promptForConfigInStore pn a s)) =
     Some (promptForConfig pn a)
   \<and> deepValue (snd (promptForConfigInStore pn a s')) (fst (promptForConfigInStore pn a s')) =
     deepValue (snd (promptForConfigInStore pn a s)) (fst (promptForConfigInStore pn a s))
   \<and> (let first = promptForConfigInStore pn a s;
           second = promptForConfigInStore pn a (snd first)
       in deepValue (snd second) (fst first) = deepValue (snd second) (fst second)
        \<and> deepValue (snd second) (fst second) = Some (promptForConfig pn a)
        \<and> ref_features (fst first) \<noteq> ref_features (fst second))"
  unfolding Let_def
  by (simp only: promptForConfigInStore_value first_result_kept promptForConfigInStore_address
        promptForConfigInStore_fresh) simp

text \<open>
  C10. The resolver yields \<open>ci = github\<close> or \<open>ci = none\<close>, never \<open>gitlab\<close>. So for a
  resolved configuration with \<open>ci\<close> other than \<open>none\<close> the CI step is its GitHub branch:
  it creates the workflow directory and writes the one file \<open>ci.yml\<close>. When the step
  reports success that file is the only change to the files; when it reports failure
  no file was written.
\<close>

theorem resolved_ci_github_or_none:
  "(ci (features (promptForConfig pn a)) = github \<or> ci (features (promptForConfig pn a)) = none)
   \<and> (ci (features (promptForConfig pn a)) \<noteq> none \<longrightarrow>
        generateCIFiles p (promptForConfig pn a) w =
          tryCatch
            (seqs [mkdirSync (resolve p ''.github/workflows''),
                   writeFileSync (resolve (resolve p ''.github/workflows'') ''ci.yml'')
                     (Text (joinLines ciWorkflowLines
                            @ (if docker (features (promptForConfig pn a))
                               then joinLines (dockerJobLines (promptForConfig pn a)) else []))),
                   says (SpinnerSucceed ''Generated CI/CD files'')])
            (\<lambda>w'. say ErrorObject (say (SpinnerFail ''Failed to generate CI/CD files'') w'))
            (say (SpinnerStart ''Generating CI/CD files...'') w)
        \<and> files (snd (generateCIFiles p (promptForConfig pn a) w)) =
            (if fst (generateCIFiles p (promptForConfig pn a) w)
             then AList.update (resolve (resolve p ''.github/workflows'') ''ci.yml'')
                    (Text (joinLines ciWorkflowLines
                           @ (if docker (features (promptForConfig pn a))
                              then joinLines (dockerJobLines (promptForConfig pn a)) else [])))
                    (files w)
             else files w))"
proof -
  let ?c = "promptForConfig pn a"
  have two: "ci (features ?c) = github \<or> ci (features ?c) = none"
    by (cases "ans_template a")
       (simp_all add: promptForConfig_def parseFeatures_def Let_def split: option.splits)
  have branch: "generateCIFiles p ?c w =
          tryCatch
            (seqs [mkdirSync (resolve p ''.github/workflows''),
                   writeFileSync (resolve (resolve p ''.github/workflows'') ''ci.yml'')
                     (Text (joinLines ciWorkflowLines
                            @ (if docker (features ?c) then joinLines (dockerJobLines ?c) else []))),
                   says (SpinnerSucceed ''Generated CI/CD files'')])
            (\<lambda>w'. say ErrorObject (say (SpinnerFail ''Failed to generate CI/CD files'') w'))
            (say (SpinnerStart ''Generating CI/CD files...'') w)"
    if "ci (features ?c) = github"
    using that by (simp add: generateCIFiles_def whenever_def Let_def tryCatch_def case_prod_beta)
  have written: "files (snd (generateCIFiles p ?c w)) =
            (if fst (generateCIFiles p ?c w)
             then AList.update (resolve (resolve p ''.github/workflows'') ''ci.yml'')
                    (Text (joinLines ciWorkflowLines
                           @ (if docker (features ?c) then joinLines (dockerJobLines ?c) else [])))
                    (files w)
             else files w)"
    if "ci (features ?c) = github"
    unfolding branch [OF that]
    by (simp add: tryCatch_def case_prod_beta mkdirSync_def writeFileSync_def says_def say_def)
  from two branch written show ?thesis by blast
qed

theorem resolved_ci_github_or_none_witness:
  "ci (features (promptForConfig None exampleAnswers)) = github
   \<and> fst (generateCIFiles ''/work/my-api'' (promptForConfig None exampleAnswers) (exampleWorld (\<lambda>op. False)))
   \<and> map fst (files (snd (generateCIFiles ''/work/my-api'' (promptForConfig None exampleAnswers)
                            (exampleWorld (\<lambda>op. False))))) =
       [''/tpl/minimal/src/index.ts'', ''/work/my-api/.github/workflows/ci.yml'']"
proof -
  have gh: "ci (features (promptForConfig None exampleAnswers)) = github"
    by (simp add: promptForConfig_def parseFeatures_def exampleAnswers_def)
  have ok: "fst (generateCIFiles ''/work/my-api'' (promptForConfig None exampleAnswers)
                  (exampleWorld (\<lambda>op. False)))"
    by code_simp
  from gh have "ci (features (promptForConfig None exampleAnswers)) \<noteq> none"
    by simp
  with resolved_ci_github_or_none [of None exampleAnswers "''/work/my-api''" "exampleWorld (\<lambda>op. False)"]
  have "files (snd (generateCIFiles ''/work/my-api'' (promptForConfig None exampleAnswers)
                      (exampleWorld (\<lambda>op. False)))) =
        (if fst (generateCIFiles ''/work/my-api'' (promptForConfig None exampleAnswers)
                  (exampleWorld (\<lambda>op. False)))
         then AList.update (resolve (resolve ''/work/my-api'' ''.github/workflows'') ''ci.yml'')
                (Text (joinLines ciWorkflowLines
                       @ (if docker (features (promptForConfig None exampleAnswers))
                          then joinLines (dockerJobLines (promptForConfig None exampleAnswers)) else [])))
                (files (exampleWorld (\<lambda>op. False)))
         else files (exampleWorld (\<lambda>op. False)))"
    by blast
  with ok have "files (snd (generateCIFiles ''/work/my-api'' (promptForConfig None exampleAnswers)
                      (exampleWorld (\<lambda>op. False)))) =
        AList.update (resolve (resolve ''/work/my-api'' ''.github/workflows'') ''ci.yml'')
          (Text (joinLines ciWorkflowLines
                 @ (if docker (features (promptForConfig None exampleAnswers))
                    then joinLines (dockerJobLines (promptForConfig None exampleAnswers)) else [])))
          (files (exampleWorld (\<lambda>op. False)))"
    by simp
  then have "map fst (files (snd (generateCIFiles ''/work/my-api'' (promptForConfig None exampleAnswers)
                            (exampleWorld (\<lambda>op. False))))) =
       [''/tpl/minimal/src/index.ts'', ''/work/my-api/.github/workflows/ci.yml'']"
    by (simp add: exampleWorld_def resolve_def)
  with gh ok show ?thesis by simp
qed

section \<open>Properties of the Docker step\<close>

lemma resolve_eq_iff:
  "rel \<noteq> [] \<Longrightarrow> hd rel \<noteq> CHR ''/'' \<Longrightarrow> rel' \<noteq> [] \<Longrightarrow> hd rel' \<noteq> CHR ''/'' \<Longrightarrow>
   (resolve base rel = resolve base rel') = (rel = rel')"
  by (simp add: resolve_def)

lemma fst_writeFileSync: "fst (writeFileSync q b w) = (\<not> throws w (WriteFile q))"
  by (simp add: writeFileSync_def)

lemma files_writeFileSync:
  "map_of (files (snd (writeFileSync q b w))) k =
     (if throws w (WriteFile q) then map_of (files w) k
      else if k = q then Some b else map_of (files w) k)"
  by (simp add: writeFileSync_def update_conv')

lemma throws_writeFileSync: "throws (snd (writeFileSync q b w)) = throws w"
  by (simp add: writeFileSync_def)

lemma says_simps:
  "fst (says l w) = True" "files (snd (says l w)) = files w" "throws (snd (says l w)) = throws w"
  by (simp_all add: says_def say_def)

lemma say_simps: "files (say l w) = files w" "throws (say l w) = throws w" "dirs (say l w) = dirs w"
  by (simp_all add: say_def)

lemma dockerfile_written:
  "docker (features config) \<Longrightarrow>
   fst (generateDockerFiles p config w) \<longrightarrow>
   map_of (files (snd (generateDockerFiles p config w))) (resolve p ''Dockerfile'') =
     Some (Text (joinLines dockerfileLines))"
  by (simp add: generateDockerFiles_def tryCatch_def whenever_def case_prod_beta
        fst_writeFileSync files_writeFileSync throws_writeFileSync says_simps say_simps resolve_eq_iff)

lemma dockerfile_untouched:
  "\<not> docker (features config) \<Longrightarrow>
   map_of (files (snd (generateDockerFiles p config w))) (resolve p ''Dockerfile'') =
     map_of (files w) (resolve p ''Dockerfile'')"
  by (simp add: generateDockerFiles_def tryCatch_def whenever_def case_prod_beta
        fst_writeFileSync files_writeFileSync throws_writeFileSync says_simps say_simps resolve_eq_iff)

lemma compose_written:
  "dockerCompose (features config) \<Longrightarrow>
   fst (generateDockerFiles p config w) \<longrightarrow>
   map_of (files (snd (generateDockerFiles p config w))) (resolve p ''docker-compose.yml'') =
     Some (JsonText (dockerComposeDoc config))"
  by (simp add: generateDockerFiles_def tryCatch_def whenever_def case_prod_beta
        fst_writeFileSync files_writeFileSync throws_writeFileSync says_simps say_simps resolve_eq_iff)

lemma dockerfile_user: "dockerUser (joinLines dockerfileLines) = ''nodejs''"
  by code_simp

lemma dockerfile_healthcheck: "hasHealthcheck (joinLines dockerfileLines)"
  by code_simp

text \<open>
  C7. With \<open>docker = true\<close>, a Docker step that reports success has written the
  \<open>Dockerfile\<close> with the text of the source; a container built from that text runs as
  the user \<open>nodejs\<close>, not as \<open>root\<close>, and the text has a \<open>HEALTHCHECK\<close> instruction.
  With \<open>docker = false\<close> the step leaves the \<open>Dockerfile\<close> path as it found it, so in a
  new project directory there is none.
\<close>

theorem dockerfile_iff_docker:
  "(docker (features config) \<longrightarrow> fst (generateDockerFiles p config w) \<longrightarrow>
      map_of (files (snd (generateDockerFiles p config w))) (resolve p ''Dockerfile'') =
        Some (Text (joinLines dockerfileLines)))
   \<and> dockerUser (joinLines dockerfileLines) = ''nodejs''
   \<and> dockerUser (joinLines dockerfileLines) \<noteq> ''root''
   \<and> hasHealthcheck (joinLines dockerfileLines)
   \<and> (\<not> docker (features config) \<longrightarrow>
        map_of (files (snd (generateDockerFiles p config w))) (resolve p ''Dockerfile'') =
          map_of (files w) (resolve p ''Dockerfile''))"
  using dockerfile_written [of config p w] dockerfile_untouched [of config p w]
  by (simp add: dockerfile_user dockerfile_healthcheck)

theorem dockerfile_iff_docker_witness:
  "map_of (files (snd (generateDockerFiles ''/work/my-api'' (promptForConfig None exampleAnswers)
                        (exampleWorld (\<lambda>op. False))))) ''/work/my-api/Dockerfile'' =
     Some (Text (joinLines dockerfileLines))
   \<and> map_of (files (snd (generateDockerFiles ''/work/my-api''
                        (promptForConfig None (exampleAnswers\<lparr>additionalFeatures := Some []\<rparr>))
                        (exampleWorld (\<lambda>op. False))))) ''/work/my-api/Dockerfile'' = None"
proof -
  let ?w = "exampleWorld (\<lambda>op. False)"
  let ?on = "promptForConfig None exampleAnswers"
  let ?off = "promptForConfig None (exampleAnswers\<lparr>additionalFeatures := Some []\<rparr>)"
  have path: "resolve ''/work/my-api'' ''Dockerfile'' = ''/work/my-api/Dockerfile''"
    by (simp add: resolve_def)
  have on: "docker (features ?on)"
    by (simp add: promptForConfig_def parseFeatures_def exampleAnswers_def)
  have off: "\<not> docker (features ?off)"
    by (simp add: promptForConfig_def parseFeatures_def exampleAnswers_def)
  have ok: "fst (generateDockerFiles ''/work/my-api'' ?on ?w)"
    by code_simp
  have none: "map_of (files ?w) ''/work/my-api/Dockerfile'' = None"
    by (simp add: exampleWorld_def)
  from dockerfile_iff_docker [of ?on "''/work/my-api''" ?w] on ok path
  have first: "map_of (files (snd (generateDockerFiles ''/work/my-api'' ?on ?w))) ''/work/my-api/Dockerfile'' =
      Some (Text (joinLines dockerfileLines))"
    by simp
  from dockerfile_iff_docker [of ?off "''/work/my-api''" ?w] off path none
  have "map_of (files (snd (generateDockerFiles ''/work/my-api'' ?off ?w))) ''/work/my-api/Dockerfile'' = None"
    by simp
  with first show ?thesis by simp
qed

text \<open>
  C8. With \<open>dockerCompose = true\<close>, a Docker step that reports success has written the
  compose definition built from the configuration. With \<open>auth = true\<close> its service graph
  has exactly the two services \<open>app\<close> and \<open>redis\<close>, and \<open>app\<close> depends on \<open>redis\<close>; with
  \<open>auth = false\<close> it has the one service \<open>app\<close>, which depends on nothing.
\<close>

theorem compose_services_by_auth:
  "(dockerCompose (features config) \<longrightarrow> fst (generateDockerFiles p config w) \<longrightarrow>
      map_of (files (snd (generateDockerFiles p config w))) (resolve p ''docker-compose.yml'') =
        Some (JsonText (dockerComposeDoc config)))
   \<and> (auth (features config) \<longrightarrow>
        serviceNames (dockerComposeDoc config) = [''app'', ''redis'']
        \<and> dependsOn ''app'' (dockerComposeDoc config) = [JStr ''redis''])
   \<and> (\<not> auth (features config) \<longrightarrow>
        serviceNames (dockerComposeDoc config) = [''app'']
        \<and> dependsOn ''app'' (dockerComposeDoc config) = [])"
  using compose_written [of config p w]
  by (simp add: serviceNames_def dependsOn_def dockerComposeDoc_def composeServices_def member_def)

theorem compose_services_by_auth_witness:
  "map_of (files (snd (generateDockerFiles ''/work/my-api''
                        (promptForConfig None (exampleAnswers\<lparr>ans_template := api\<rparr>))
                        (exampleWorld (\<lambda>op. False))))) ''/work/my-api/docker-compose.yml'' =
     Some (JsonText (dockerComposeDoc (promptForConfig None (exampleAnswers\<lparr>ans_template := api\<rparr>))))
   \<and> serviceNames (dockerComposeDoc (promptForConfig None (exampleAnswers\<lparr>ans_template := api\<rparr>))) =
       [''app'', ''redis'']
   \<and> dependsOn ''app'' (dockerComposeDoc (promptForConfig None (exampleAnswers\<lparr>ans_template := api\<rparr>))) =
       [JStr ''redis'']
   \<and> serviceNames (dockerComposeDoc
         (promptForConfig None (exampleAnswers\<lparr>additionalFeatures := Some [''dockerCompose'']\<rparr>))) =
       [''app'']"
proof -
  let ?w = "exampleWorld (\<lambda>op. False)"
  let ?api = "promptForConfig None (exampleAnswers\<lparr>ans_template := api\<rparr>)"
  let ?plain = "promptForConfig None (exampleAnswers\<lparr>additionalFeatures := Some [''dockerCompose'']\<rparr>)"
  have path: "resolve ''/work/my-api'' ''docker-compose.yml'' = ''/work/my-api/docker-compose.yml''"
    by (simp add: resolve_def)
  have flags: "dockerCompose (features ?api)" "auth (features ?api)" "\<not> auth (features ?plain)"
    by (simp_all add: promptForConfig_def parseFeatures_def exampleAnswers_def)
  have ok: "fst (generateDockerFiles ''/work/my-api'' ?api ?w)"
    by code_simp
  from compose_services_by_auth [of ?api "''/work/my-api''" ?w] flags ok path
  have withAuth: "map_of (files (snd (generateDockerFiles ''/work/my-api'' ?api ?w)))
        ''/work/my-api/docker-compose.yml'' = Some (JsonText (dockerComposeDoc ?api))
      \<and> serviceNames (dockerComposeDoc ?api) = [''app'', ''redis'']
      \<and> dependsOn ''app'' (dockerComposeDoc ?api) = [JStr ''redis'']"
    by simp
  from compose_services_by_auth [of ?plain "''/work/my-api''" ?w] flags
  have "serviceNames (dockerComposeDoc ?plain) = [''app'']"
    by simp
  with withAuth show ?thesis by simp
qed

section \<open>Properties of the pipeline\<close>

lemma reports_first: "reports ((s, act) # rest) w 0 = fst (act w)"
  by (simp add: reports_def)

lemma reports_later: "reports ((s, act) # rest) w (Suc j) = reports rest (snd (act w)) j"
  by (simp add: reports_def)

text \<open>
  The loop stops at the first step that reports failure: it has called the steps up
  to that one and no other, and what it leaves is the world those steps left, with
  the failure line added to the console.
\<close>

lemma runSteps_first_failure:
  "k < length ss \<Longrightarrow> (\<forall>j<k. reports ss w j) \<Longrightarrow> \<not> reports ss w k \<Longrightarrow>
   runSteps ss w = (False, take (Suc k) (map fst ss), say setupFailed (worldAfter ss w (Suc k)))"
proof (induction ss arbitrary: w k)
  case Nil
  then show ?case by simp
next
  case (Cons x rest)
  obtain s act where x: "x = (s, act)" by (cases x)
  show ?case
  proof (cases k)
    case 0
    with Cons.prems x have "\<not> fst (act w)" by (simp add: reports_first)
    with 0 x show ?thesis by (simp add: case_prod_beta)
  next
    case (Suc k')
    from Cons.prems Suc x have ok: "fst (act w)"
      using reports_first [of s act rest w] by auto
    from Cons.prems Suc have len: "k' < length rest" by simp
    from Cons.prems Suc x have before: "\<forall>j<k'. reports rest (snd (act w)) j"
      using reports_later [of s act rest w] by auto
    from Cons.prems Suc x have fails: "\<not> reports rest (snd (act w)) k'"
      by (simp add: reports_later)
    from Cons.IH [OF len before fails] ok Suc x show ?thesis
      by (simp add: case_prod_beta)
  qed
qed


lemma steps_order: "map fst (steps t p c) = stepOrder"
  by (simp add: steps_def stepOrder_def)

lemma length_steps: "length (steps t p c) = 9"
  by (simp add: steps_def)

lemma all_below_iff: "(\<forall>j<k. P j) = list_all P [0..<k]"
  by (auto simp: list_all_iff)

lemma worldAfter_Suc:
  "k < length ss \<Longrightarrow> worldAfter ss w (Suc k) = snd (snd (ss ! k) (worldAfter ss w k))"
proof (induction ss arbitrary: w k)
  case Nil
  then show ?case by simp
next
  case (Cons x rest)
  obtain s act where x: "x = (s, act)" by (cases x)
  show ?case
  proof (cases k)
    case 0
    with x show ?thesis by simp
  next
    case (Suc k')
    with Cons.prems have "k' < length rest" by simp
    from Cons.IH [OF this] Suc x show ?thesis by simp
  qed
qed






lemma install_step: "steps t p c ! 7 = (InstallDependencies, installDependencies p c)"
  by (simp add: steps_def)

lemma installDependencies_throws:
  "install c \<Longrightarrow> throws w (ExecSync (installCommand (packageManager c))) \<Longrightarrow>
   installDependencies p c w =
     (False, fold say (installRemediation c)
               (say (SpinnerFail ''Failed to install dependencies'')
                 (say (SpinnerStart ''Installing dependencies...'') w)))"
  by (simp add: installDependencies_def tryCatch_def execSync_def say_simps)

text \<open>
  C4, as the code has it. A failing \<open>npm install\<close> ends the run like any other failure:
  the failure line is the last thing printed, the exit code is 1, and the
  version-control step is never called (no \<open>git\<close> command was run).
\<close>

theorem install_failure_counterexample:
  "exitCode (main ''/tpl'' [] exampleAnswers (exampleWorld (\<lambda>op. op = ExecSync ''npm install''))) = 1
   \<and> invoked (main ''/tpl'' [] exampleAnswers (exampleWorld (\<lambda>op. op = ExecSync ''npm install''))) =
       [CreateProjectStructure, CopyTemplateFiles, GeneratePackageJson, GenerateConfigFiles,
        GenerateDockerFiles, GenerateCIFiles, GenerateREADME, InstallDependencies]
   \<and> last (console (finalWorld (main ''/tpl'' [] exampleAnswers
         (exampleWorld (\<lambda>op. op = ExecSync ''npm install''))))) = setupFailed
   \<and> execs (finalWorld (main ''/tpl'' [] exampleAnswers
         (exampleWorld (\<lambda>op. op = ExecSync ''npm install'')))) =
       [(''rm -rf /work/my-api/src'', ''/work''),
        (''chmod +x /work/my-api/.husky/pre-commit'', ''/work''),
        (''chmod +x /work/my-api/.husky/commit-msg'', ''/work'')]"
  by code_simp

text \<open>
  C4, amended. When the install command throws, the install step prints the
  remediation lines with a manual install command and reports failure; the pipeline
  then aborts as it does for every other step: the failure line is printed, the exit
  code is 1, and the version-control step is not called.
\<close>

theorem install_failure_aborts:
  assumes "name (promptForConfig pn a) = Some n"
      and "\<not> existsSync (resolve (cwd w) n) w"
      and "\<forall>j<7. reports (steps t (resolve (cwd w) n) (promptForConfig pn a)) w j"
      and "throws (worldAfter (steps t (resolve (cwd w) n) (promptForConfig pn a)) w 7)
             (ExecSync (installCommand (ans_packageManager a)))"
  shows "mainFromPrompt t pn a w =
           \<lparr>exitCode = 1, invoked = take 8 stepOrder,
            finalWorld = say setupFailed
              (fold say (installRemediation (promptForConfig pn a))
                (say (SpinnerFail ''Failed to install dependencies'')
                  (say (SpinnerStart ''Installing dependencies...'')
                    (worldAfter (steps t (resolve (cwd w) n) (promptForConfig pn a)) w 7))))\<rparr>
       \<and> InitializeGit \<notin> set (invoked (mainFromPrompt t pn a w))"
proof -
  let ?c = "promptForConfig pn a"
  let ?p = "resolve (cwd w) n"
  let ?S = "steps t ?p ?c"
  let ?w7 = "worldAfter ?S w 7"
  have cfg: "install ?c" "packageManager ?c = ans_packageManager a"
    by (simp_all add: promptForConfig_def)
  with assms(4) have step: "installDependencies ?p ?c ?w7 =
     (False, fold say (installRemediation ?c)
               (say (SpinnerFail ''Failed to install dependencies'')
                 (say (SpinnerStart ''Installing dependencies...'') ?w7)))"
    by (simp add: installDependencies_throws)
  then have fails: "\<not> reports ?S w 7"
    by (simp add: reports_def install_step)
  have "worldAfter ?S w (Suc 7) = snd (snd (?S ! 7) ?w7)"
    by (rule worldAfter_Suc) (simp add: length_steps)
  with step have w8: "worldAfter ?S w (Suc 7) =
      fold say (installRemediation ?c)
        (say (SpinnerFail ''Failed to install dependencies'')
          (say (SpinnerStart ''Installing dependencies...'') ?w7))"
    by (simp add: install_step)
  have "runSteps ?S w = (False, take (Suc 7) (map fst ?S), say setupFailed (worldAfter ?S w (Suc 7)))"
    using assms(3) fails by (intro runSteps_first_failure) (simp_all add: length_steps)
  with assms(1,2) w8 have eq: "mainFromPrompt t pn a w =
           \<lparr>exitCode = 1, invoked = take 8 stepOrder,
            finalWorld = say setupFailed
              (fold say (installRemediation ?c)
                (say (SpinnerFail ''Failed to install dependencies'')
                  (say (SpinnerStart ''Installing dependencies...'') ?w7)))\<rparr>"
    by (simp add: mainFromPrompt_def Let_def steps_order)
  have "InitializeGit \<notin> set (take 8 stepOrder)"
    by (simp add: stepOrder_def)
  with eq show ?thesis by simp
qed

theorem install_failure_aborts_witness:
  "exitCode (mainFromPrompt ''/tpl'' None exampleAnswers
       (exampleWorld (\<lambda>op. op = ExecSync ''npm install''))) = 1
   \<and> invoked (mainFromPrompt ''/tpl'' None exampleAnswers
       (exampleWorld (\<lambda>op. op = ExecSync ''npm install''))) =
       [CreateProjectStructure, CopyTemplateFiles, GeneratePackageJson, GenerateConfigFiles,
        GenerateDockerFiles, GenerateCIFiles, GenerateREADME, InstallDependencies]
   \<and> InitializeGit \<notin> set (invoked (mainFromPrompt ''/tpl'' None exampleAnswers
       (exampleWorld (\<lambda>op. op = ExecSync ''npm install''))))"
proof -
  let ?w = "exampleWorld (\<lambda>op. op = ExecSync ''npm install'')"
  let ?c = "promptForConfig None exampleAnswers"
  let ?S = "steps ''/tpl'' ''/work/my-api'' ?c"
  have nm: "name ?c = Some ''my-api''"
    by (simp add: promptForConfig_def exampleAnswers_def truthy_def)
  have path: "resolve (cwd ?w) ''my-api'' = ''/work/my-api''"
    by (simp add: exampleWorld_def resolve_def)
  have new: "\<not> existsSync (resolve (cwd ?w) ''my-api'') ?w"
    by (simp add: path) (simp add: existsSync_def exampleWorld_def)
  have before: "\<forall>j<7. reports ?S ?w j"
    unfolding all_below_iff by code_simp
  have thrown: "throws (worldAfter ?S ?w 7) (ExecSync (installCommand (ans_packageManager exampleAnswers)))"
    by code_simp
  from install_failure_aborts [where t = "''/tpl''", OF nm new] before thrown
  have "mainFromPrompt ''/tpl'' None exampleAnswers ?w =
           \<lparr>exitCode = 1, invoked = take 8 stepOrder,
            finalWorld = say setupFailed
              (fold say (installRemediation ?c)
                (say (SpinnerFail ''Failed to install dependencies'')
                  (say (SpinnerStart ''Installing dependencies...'') (worldAfter ?S ?w 7))))\<rparr>"
    by (simp add: path)
  then show ?thesis
    by (simp add: stepOrder_def)
qed

section \<open>The project name\<close>

text \<open>
  C6. The \<open>validate\<close> callback rejects \<open>My App\<close>, \<open>my app\<close> and the empty name and accepts
  \<open>my-api_2\<close>. It belongs to the name question, which is not asked when a name comes from
  the command line: the run with the argument \<open>My App\<close> resolves that name unchecked,
  calls every step, creates the directory \<open>/work/My App\<close> and exits with code 0.
\<close>

theorem cli_name_not_validated:
  "validate ''My App'' = Inl ''Project name can only contain lowercase letters, numbers, hyphens, and underscores''
   \<and> validate ''my app'' = Inl ''Project name can only contain lowercase letters, numbers, hyphens, and underscores''
   \<and> validate ''my-api_2'' = Inr ()
   \<and> validate '''' = Inl ''Project name is required''
   \<and> nameQuestionAsked (Some ''My App'') = False
   \<and> name (promptForConfig (Some ''My App'') exampleAnswers) = Some ''My App''
   \<and> exitCode (main ''/tpl'' [''My App''] exampleAnswers (exampleWorld (\<lambda>op. False))) = 0
   \<and> invoked (main ''/tpl'' [''My App''] exampleAnswers (exampleWorld (\<lambda>op. False))) = stepOrder
   \<and> ''/work/My App'' \<in> set (dirs (finalWorld (main ''/tpl'' [''My App''] exampleAnswers (exampleWorld (\<lambda>op. False)))))"
  by code_simp

end
